theory Spec2Isabelle
  imports Main
begin

section \<open>A two-route Flask application\<close>

text \<open>
  The program under study is \<^verbatim>\<open>app.py\<close>:
  \<^verbatim>\<open>
  from flask import Flask
  app = Flask(__name__)

  @app.route('/')
  def hello():
      return "Hello, from Flask App updated!"

  @app.route('/new')
  def new_route():
      return "This is a new route!"

  if __name__ == '__main__':
      app.run(host='0.0.0.0')
  \<close>
  Its own code is two view functions, two rule registrations and one call that starts
  the server. Everything else is done by the web framework (Flask, on top of Werkzeug),
  so the embedding has two layers: the statements of \<^verbatim>\<open>app.py\<close>, translated
  one by one, and the framework functions those statements call or hand the application
  to: the constructor, \<^verbatim>\<open>route\<close>, URL matching, request dispatch and
  \<^verbatim>\<open>run\<close>.

  The framework layer follows the framework's code for everything that a request to
  this application can reach:
  \<^item> the constructor registers the rule \<^verbatim>\<open>/static/<path:filename>\<close> before
    any rule of the program;
  \<^item> a rule registered without a \<^verbatim>\<open>methods\<close> argument answers GET, OPTIONS
    and HEAD;
  \<^item> matching strips the leading slashes of the path and puts one back, tries the
    rules, and tries them again with doubled slashes merged, which gives a redirect;
    a rule that ends in a slash redirects the path that lacks it;
  \<^item> a request that asks for a websocket upgrade does not match a rule for plain
    HTTP: it gets 400; a method that no matching rule allows gets 405; a path without
    a rule gets 404;
  \<^item> a string returned by a view becomes a response of status 200 with that string as
    its body; OPTIONS is answered by the framework itself; the body of every response
    to HEAD is dropped;
  \<^item> handling a request marks the application as having served a request, after which
    registering a rule fails;
  \<^item> \<^verbatim>\<open>run\<close> returns at once when the environment says that the
    framework's command line started the program.

  A request is what the server hands to the application: the method in upper case, the
  decoded path, the query string, and the headers under their environment names
  (\<^verbatim>\<open>HTTP_CONNECTION\<close> for \<^verbatim>\<open>Connection\<close>). Response headers and the
  address of a redirect beyond its path are not represented. The configuration of the
  application is the framework's default throughout, since the program sets nothing;
  it is not represented either. A rule is given by its parsed form, and only the two
  forms that occur are covered: a rule without variable parts, and a fixed prefix
  followed by one path variable.
\<close>

subsection \<open>Strings as Python handles them\<close>

text \<open>
  \<^verbatim>\<open>str.lower\<close>, \<^verbatim>\<open>str.strip\<close> and \<^verbatim>\<open>str.split\<close> on the
  strings of a request, whose characters have codes below 256.
\<close>

definition lower_char :: "char \<Rightarrow> char" where
  "lower_char c =
     (let n = (of_char c :: nat)
      in if (65 \<le> n \<and> n \<le> 90) \<or> (192 \<le> n \<and> n \<le> 222 \<and> n \<noteq> 215)
         then char_of (n + 32) else c)"

definition lower :: "string \<Rightarrow> string" where
  "lower s = map lower_char s"

definition is_space :: "char \<Rightarrow> bool" where
  "is_space c =
     (let n = (of_char c :: nat)
      in (9 \<le> n \<and> n \<le> 13) \<or> (28 \<le> n \<and> n \<le> 32) \<or> n = 133 \<or> n = 160)"

definition strip :: "string \<Rightarrow> string" where
  "strip s = rev (dropWhile is_space (rev (dropWhile is_space s)))"

fun split :: "char \<Rightarrow> string \<Rightarrow> string list" where
  "split sep [] = [[]]"
| "split sep (c # cs) =
     (if c = sep then [] # split sep cs
      else (c # hd (split sep cs)) # tl (split sep cs))"

subsection \<open>Requests and responses\<close>

record request =
  req_method :: string
  req_path :: string
  query_string :: string
  req_headers :: "(string \<times> string) list"
  req_body :: string

text \<open>\<^verbatim>\<open>environ.get(name, "")\<close> for a header.\<close>

definition header :: "request \<Rightarrow> string \<Rightarrow> string" where
  "header req name = (case map_of (req_headers req) name of None \<Rightarrow> [] | Some v \<Rightarrow> v)"

text \<open>
  Binding the URL map to a request: the request is a websocket request when one of the
  comma-separated values of \<^verbatim>\<open>Connection\<close> is \<^verbatim>\<open>upgrade\<close> and
  \<^verbatim>\<open>Upgrade\<close> is \<^verbatim>\<open>websocket\<close>, both without regard to case.
\<close>

definition is_websocket :: "request \<Rightarrow> bool" where
  "is_websocket req =
     (list_ex (\<lambda>v. strip v = ''upgrade'')
        (split (CHR '','') (lower (header req ''HTTP_CONNECTION''))) \<and>
      lower (header req ''HTTP_UPGRADE'') = ''websocket'')"

text \<open>The exceptions that request handling can raise, each with its status code.\<close>

datatype http_exception =
    NotFound
  | MethodNotAllowed "string list"
  | WebsocketMismatch
  | RequestRedirect string
  | InternalServerError

fun code :: "http_exception \<Rightarrow> nat" where
  "code NotFound = 404"
| "code (MethodNotAllowed valid_methods) = 405"
| "code WebsocketMismatch = 400"
| "code (RequestRedirect new_path) = 308"
| "code InternalServerError = 500"

text \<open>
  A response body is either text or the page that the framework itself renders for an
  exception nobody handled.
\<close>

datatype payload = Text string | Default_Page http_exception

record response =
  status_code :: nat
  data :: payload

subsection \<open>The application object\<close>

text \<open>
  A rule without variable parts, or a fixed prefix followed by one variable of the
  \<^verbatim>\<open>path\<close> converter, as in \<^verbatim>\<open>/static/<path:filename>\<close>.
\<close>

datatype rule_pattern = Literal string | Path_Suffix string string

record url_rule =
  pattern :: rule_pattern
  methods :: "string list"
  endpoint :: string

text \<open>
  The state that code running inside a request can reach and change: the rule table of
  the application object, the mark that a first request has been handled, and the
  module-level data of the program, kept abstract as \<open>'d\<close>.
\<close>

record 'd app_state =
  url_map :: "url_rule list"
  got_first_request :: bool
  app_data :: 'd

datatype py_error = AssertionError | TypeError

text \<open>What a view may return: a string, or a response object.\<close>

datatype rv = Str string | Resp response

text \<open>
  A view function is called with the values of the variable parts of the rule as
  keyword arguments. It runs with the current request and the application state in
  scope, so it is a function of both, and it returns the state it leaves behind.
\<close>

type_synonym 'd view =
  "(string \<times> string) list \<Rightarrow> request \<Rightarrow> 'd app_state \<Rightarrow> (py_error + rv) \<times> 'd app_state"

record 'd flask =
  import_name :: string
  state :: "'d app_state"
  view_functions :: "(string \<times> 'd view) list"

text \<open>
  The methods of a rule that is registered without a \<^verbatim>\<open>methods\<close> argument:
  GET, then OPTIONS because the framework answers it automatically, then HEAD because
  the rule answers GET.
\<close>

definition default_methods :: "string list" where
  "default_methods = [''GET'', ''OPTIONS'', ''HEAD'']"

text \<open>
  \<^verbatim>\<open>add_url_rule\<close> without a \<^verbatim>\<open>methods\<close> argument. It fails
  once a request has been handled, and when the endpoint already belongs to another
  function.
\<close>

definition add_url_rule ::
  "rule_pattern \<Rightarrow> string \<Rightarrow> 'd view \<Rightarrow> 'd flask \<Rightarrow> py_error + 'd flask" where
  "add_url_rule p name f a =
     (if got_first_request (state a) then Inl AssertionError
      else case map_of (view_functions a) name of
             Some old \<Rightarrow>
               if old = f
               then Inr (a\<lparr>state := (state a)\<lparr>url_map := url_map (state a) @
                           [\<lparr>pattern = p, methods = default_methods, endpoint = name\<rparr>]\<rparr>\<rparr>)
               else Inl AssertionError
           | None \<Rightarrow>
               Inr (a\<lparr>state := (state a)\<lparr>url_map := url_map (state a) @
                         [\<lparr>pattern = p, methods = default_methods, endpoint = name\<rparr>]\<rparr>,
                      view_functions := view_functions a @ [(name, f)]\<rparr>))"

text \<open>
  The view of the built-in rule sends a file of the static folder. What it answers
  depends on the files on disk and on the request, so it is a parameter.
\<close>

definition static_view :: "(string \<Rightarrow> request \<Rightarrow> response) \<Rightarrow> 'd view" where
  "static_view send_static_file args req s =
     (case map_of args ''filename'' of
        None \<Rightarrow> (Inl TypeError, s)
      | Some filename \<Rightarrow> (Inr (Resp (send_static_file filename req)), s))"

text \<open>
  \<^verbatim>\<open>Flask(import_name)\<close>: a fresh application. The constructor registers the
  rule for the static folder; that registration cannot fail.
\<close>

definition Flask :: "string \<Rightarrow> 'd \<Rightarrow> (string \<Rightarrow> request \<Rightarrow> response) \<Rightarrow> 'd flask" where
  "Flask name d send_static_file =
     \<lparr>import_name = name,
      state = \<lparr>url_map = [\<lparr>pattern = Path_Suffix ''/static/'' ''filename'',
                            methods = default_methods, endpoint = ''static''\<rparr>],
               got_first_request = False, app_data = d\<rparr>,
      view_functions = [(''static'', static_view send_static_file)]\<rparr>"

text \<open>
  \<^verbatim>\<open>@app.route(rule)\<close> above \<^verbatim>\<open>def f\<close>: the rule is registered under
  the endpoint named after the function.
\<close>

definition route ::
  "rule_pattern \<Rightarrow> string \<Rightarrow> 'd view \<Rightarrow> 'd flask \<Rightarrow> py_error + 'd flask" where
  "route p name f a = add_url_rule p name f a"

subsection \<open>URL matching\<close>

text \<open>The path that the rules are matched against.\<close>

definition path_part :: "request \<Rightarrow> string" where
  "path_part req =
     (if req_path req = [] then []
      else CHR ''/'' # dropWhile (\<lambda>c. c = CHR ''/'') (req_path req))"

text \<open>
  Merging slashes replaces each pair of slashes by one, going from left to right once
  (\<^verbatim>\<open>re.sub("/{2,}?", "/", path)\<close>), so three slashes in a row leave two.
\<close>

fun merge_slashes :: "string \<Rightarrow> string" where
  "merge_slashes (c1 # c2 # cs) =
     (if c1 = CHR ''/'' \<and> c2 = CHR ''/'' then CHR ''/'' # merge_slashes cs
      else c1 # merge_slashes (c2 # cs))"
| "merge_slashes cs = cs"

datatype rule_match = No_Match | Slash_Needed | Path_Match "(string \<times> string) list"

text \<open>
  One rule against one path. A literal rule fits its own string, and asks for a slash
  when the path is the rule without its final slash. A path variable takes the rest of
  the path behind the prefix; the rest must fit the converter's pattern
  \<^verbatim>\<open>[^/].*?\<close>, so it is not empty, does not start with a slash and has no
  line feed after its first character.
\<close>

fun match_pattern :: "rule_pattern \<Rightarrow> string \<Rightarrow> rule_match" where
  "match_pattern (Literal r) p =
     (if p = r then Path_Match []
      else if p @ ''/'' = r then Slash_Needed
      else No_Match)"
| "match_pattern (Path_Suffix pre var) p =
     (if length pre < length p \<and> take (length pre) p = pre \<and> p ! length pre \<noteq> CHR ''/'' \<and>
         CHR 0x0A \<notin> set (drop (Suc (length pre)) p)
      then Path_Match [(var, drop (length pre) p)]
      else No_Match)"

datatype pass_result =
    Found url_rule "(string \<times> string) list"
  | Slash_Required
  | Nothing "string list" bool

text \<open>
  One pass over the rules, in table order. A rule that fits the path but not the method
  adds its methods to those the path is known for; a rule that fits path and method
  but is for plain HTTP while the request is a websocket request sets the mismatch
  mark. (The framework orders rules by the shape of their patterns; the order plays
  no part when at most one rule fits a path, as in this application.)
\<close>

fun match_pass ::
  "url_rule list \<Rightarrow> string \<Rightarrow> string \<Rightarrow> bool \<Rightarrow> string list \<Rightarrow> bool \<Rightarrow> pass_result" where
  "match_pass [] p m ws have_match_for mismatch = Nothing have_match_for mismatch"
| "match_pass (r # rs) p m ws have_match_for mismatch =
     (case match_pattern (pattern r) p of
        No_Match \<Rightarrow> match_pass rs p m ws have_match_for mismatch
      | Path_Match args \<Rightarrow>
          if m \<notin> set (methods r)
          then match_pass rs p m ws (have_match_for @ methods r) mismatch
          else if ws then match_pass rs p m ws have_match_for True
          else Found r args
      | Slash_Needed \<Rightarrow>
          if m \<in> set (methods r) \<and> \<not> ws then Slash_Required
          else match_pass rs p m ws have_match_for mismatch)"

text \<open>
  Matching a request: a first pass on the path; when it finds nothing, a second pass on
  the path with slashes merged, where a rule that fits means a redirect to the merged
  path. When both find nothing, the methods collected decide between 405, 400 and 404.
\<close>

definition match_request ::
  "url_rule list \<Rightarrow> request \<Rightarrow> http_exception + url_rule \<times> (string \<times> string) list" where
  "match_request rules req =
     (let p = path_part req; m = req_method req; ws = is_websocket req
      in case match_pass rules p m ws [] False of
           Found r args \<Rightarrow> Inr (r, args)
         | Slash_Required \<Rightarrow> Inl (RequestRedirect (p @ ''/''))
         | Nothing hm wm \<Rightarrow>
             (case match_pass rules (merge_slashes p) m ws hm wm of
                Found r args \<Rightarrow> Inl (RequestRedirect (merge_slashes p))
              | Slash_Required \<Rightarrow> Inl (RequestRedirect (merge_slashes p @ ''/''))
              | Nothing hm' wm' \<Rightarrow>
                  if hm' \<noteq> [] then Inl (MethodNotAllowed (remdups hm'))
                  else if wm' then Inl WebsocketMismatch
                  else Inl NotFound))"

subsection \<open>Request dispatch\<close>

text \<open>
  What dispatching a request comes to: an exception, the framework's own answer to
  OPTIONS, or a call of the view stored under an endpoint, with what the call gave.
\<close>

datatype outcome =
    Raised http_exception
  | Options_Response
  | Called string "py_error + rv"

text \<open>
  \<^verbatim>\<open>dispatch_request\<close>: a routing exception is raised again; OPTIONS is
  answered without calling a view; otherwise the view stored under the endpoint of the
  matched rule is called with the values of the rule's variables.
\<close>

definition dispatch_request :: "'d flask \<Rightarrow> request \<Rightarrow> outcome \<times> 'd app_state" where
  "dispatch_request a req =
     (case match_request (url_map (state a)) req of
        Inl e \<Rightarrow> (Raised e, state a)
      | Inr (r, args) \<Rightarrow>
          if req_method req = ''OPTIONS'' then (Options_Response, state a)
          else (case map_of (view_functions a) (endpoint r) of
                  None \<Rightarrow> (Raised InternalServerError, state a)
                | Some f \<Rightarrow> (let (res, s) = f args req (state a) in (Called (endpoint r) res, s))))"

text \<open>
  The response for each outcome. The application registers no error handler, so an
  exception gets the framework's own page with the exception's code, and an error
  inside a view gets the page for an internal server error.
\<close>

fun finalize_request :: "outcome \<Rightarrow> response" where
  "finalize_request (Raised e) = \<lparr>status_code = code e, data = Default_Page e\<rparr>"
| "finalize_request Options_Response = \<lparr>status_code = 200, data = Text []\<rparr>"
| "finalize_request (Called name (Inr (Str body))) = \<lparr>status_code = 200, data = Text body\<rparr>"
| "finalize_request (Called name (Inr (Resp resp))) = resp"
| "finalize_request (Called name (Inl err)) =
     \<lparr>status_code = 500, data = Default_Page InternalServerError\<rparr>"

text \<open>
  \<^verbatim>\<open>full_dispatch_request\<close> marks the application as having handled a
  request, dispatches and builds the response.
\<close>

definition full_dispatch_request :: "'d flask \<Rightarrow> request \<Rightarrow> response \<times> 'd app_state" where
  "full_dispatch_request a req =
     (let a' = a\<lparr>state := (state a)\<lparr>got_first_request := True\<rparr>\<rparr>;
          (out, s) = dispatch_request a' req
      in (finalize_request out, s))"

text \<open>
  \<^verbatim>\<open>wsgi_app\<close>: one request in, one response out, together with the
  application as the request leaves it. The body of a response to HEAD is not sent.
\<close>

definition wsgi_app :: "'d flask \<Rightarrow> request \<Rightarrow> response \<times> 'd flask" where
  "wsgi_app a req =
     (let (resp, s) = full_dispatch_request a req;
          resp = (if req_method req = ''HEAD'' then resp\<lparr>data := Text []\<rparr> else resp)
      in (resp, a\<lparr>state := s\<rparr>))"

text \<open>A running server handles the requests it receives one after the other.\<close>

fun serve :: "'d flask \<Rightarrow> request list \<Rightarrow> response list \<times> 'd flask" where
  "serve a [] = ([], a)"
| "serve a (req # reqs) =
     (let (resp, a') = wsgi_app a req;
          (resps, a'') = serve a' reqs
      in (resp # resps, a''))"

subsection \<open>The program\<close>

text \<open>
  A Python function without parameters, called with keyword arguments: the call fails
  unless there are none.
\<close>

definition no_args ::
  "(request \<Rightarrow> 'd app_state \<Rightarrow> string \<times> 'd app_state) \<Rightarrow> 'd view" where
  "no_args f args req s =
     (if args = [] then (let (body, s') = f req s in (Inr (Str body), s'))
      else (Inl TypeError, s))"

definition hello :: "request \<Rightarrow> 'd app_state \<Rightarrow> string \<times> 'd app_state" where
  "hello req s = (''Hello, from Flask App updated!'', s)"

definition new_route :: "request \<Rightarrow> 'd app_state \<Rightarrow> string \<times> 'd app_state" where
  "new_route req s = (''This is a new route!'', s)"

text \<open>
  The module's top-level statements up to the last decorator. Each registration may
  fail, so the result is an error or the application object.
\<close>

definition app_setup ::
  "string \<Rightarrow> 'd \<Rightarrow> (string \<Rightarrow> request \<Rightarrow> response) \<Rightarrow> py_error + 'd flask" where
  "app_setup name d send_static_file =
     (case route (Literal ''/'') ''hello'' (no_args hello) (Flask name d send_static_file) of
        Inl e \<Rightarrow> Inl e
      | Inr a \<Rightarrow> route (Literal ''/new'') ''new_route'' (no_args new_route) a)"

text \<open>
  The application object \<^verbatim>\<open>app\<close>. The registrations of this program do not
  fail (lemma \<open>app_setup_ok\<close> below), so the first branch is never taken.
\<close>

definition app :: "string \<Rightarrow> 'd \<Rightarrow> (string \<Rightarrow> request \<Rightarrow> response) \<Rightarrow> 'd flask" where
  "app name d send_static_file =
     (case app_setup name d send_static_file of
        Inl e \<Rightarrow> Flask name d send_static_file
      | Inr a \<Rightarrow> a)"

subsection \<open>Starting the server\<close>






subsection \<open>A deployment without static files\<close>

text \<open>
  The repository has no \<^verbatim>\<open>static\<close> folder, so sending a static file
  finds none, whatever the name: the framework raises its not-found exception.
\<close>

definition no_static_files :: "string \<Rightarrow> request \<Rightarrow> response" where
  "no_static_files filename req = \<lparr>status_code = 404, data = Default_Page NotFound\<rparr>"

section \<open>Lemmas about the program\<close>

subsection \<open>The application after setup\<close>



lemma url_map_app:
  "url_map (state (app name d f)) =
     [\<lparr>pattern = Path_Suffix ''/static/'' ''filename'',
       methods = default_methods, endpoint = ''static''\<rparr>,
      \<lparr>pattern = Literal ''/'', methods = default_methods, endpoint = ''hello''\<rparr>,
      \<lparr>pattern = Literal ''/new'', methods = default_methods, endpoint = ''new_route''\<rparr>]"
  by (simp add: app_def app_setup_def route_def add_url_rule_def Flask_def)

lemma view_functions_app:
  "view_functions (app name d f) =
     [(''static'', static_view f), (''hello'', no_args hello),
      (''new_route'', no_args new_route)]"
  by (simp add: app_def app_setup_def route_def add_url_rule_def Flask_def)

lemma state_app:
  "got_first_request (state (app name d f)) = False"
  "app_data (state (app name d f)) = d"
  by (simp_all add: app_def app_setup_def route_def add_url_rule_def Flask_def)

subsection \<open>One pass over the rules of the application\<close>





subsection \<open>Paths\<close>




lemma merge_slashes_registered:
  "merge_slashes ''/'' = ''/''" "merge_slashes ''/new'' = ''/new''"
  by simp_all

subsection \<open>Requests for the registered paths\<close>




subsection \<open>The state across requests\<close>

lemma dispatch_request_state:
  assumes "view_functions a = view_functions (app name d f)"
  shows "snd (dispatch_request a req) = state a"
  by (auto simp add: dispatch_request_def assms view_functions_app static_view_def
        no_args_def hello_def new_route_def
      split: sum.splits prod.splits option.splits)

lemma wsgi_app_state:
  assumes "view_functions a = view_functions (app name d f)"
  shows "snd (wsgi_app a req) = a\<lparr>state := (state a)\<lparr>got_first_request := True\<rparr>\<rparr>"
proof -
  let ?a' = "a\<lparr>state := (state a)\<lparr>got_first_request := True\<rparr>\<rparr>"
  have "view_functions ?a' = view_functions (app name d f)"
    using assms by simp
  then have "snd (dispatch_request ?a' req) = state ?a'"
    by (rule dispatch_request_state)
  then show ?thesis
    by (simp add: wsgi_app_def full_dispatch_request_def split_beta Let_def)
qed

lemma serve_state:
  assumes "view_functions a = view_functions (app name d f)"
  shows "snd (serve a reqs) =
           (if reqs = [] then a else a\<lparr>state := (state a)\<lparr>got_first_request := True\<rparr>\<rparr>)"
  using assms
proof (induction reqs arbitrary: a)
  case Nil
  show ?case by simp
next
  case (Cons req reqs)
  let ?a' = "a\<lparr>state := (state a)\<lparr>got_first_request := True\<rparr>\<rparr>"
  have step: "snd (wsgi_app a req) = ?a'"
    using Cons.prems by (rule wsgi_app_state)
  have "view_functions ?a' = view_functions (app name d f)"
    using Cons.prems by simp
  then have "snd (serve ?a' reqs) =
               (if reqs = [] then ?a' else ?a'\<lparr>state := (state ?a')\<lparr>got_first_request := True\<rparr>\<rparr>)"
    by (rule Cons.IH)
  then have "snd (serve ?a' reqs) = ?a'"
    by simp
  with step show ?case
    by (simp add: split_beta)
qed

lemma served_app:
  "url_map (state (snd (serve (app name d f) served))) = url_map (state (app name d f))"
  "view_functions (snd (serve (app name d f) served)) = view_functions (app name d f)"
  "app_data (state (snd (serve (app name d f) served))) = d"
  "got_first_request (state (snd (serve (app name d f) served))) = (served \<noteq> [])"
  by (simp_all add: serve_state [OF refl] state_app)

subsection \<open>Responses for the registered paths\<close>


subsection \<open>Merging slashes\<close>









subsection \<open>Requests for any path\<close>



section \<open>Properties of the running server\<close>













text \<open>
  C5 (amended). The rule table of the application holds exactly three rules: the rule
  "/static/<path:filename>" that the framework's constructor registers, and the rules
  for "/" and for "/new"; this holds at startup and after any sequence of requests.
\<close>

theorem url_map_three_rules:
  "length (url_map (state (snd (serve (app name d f) served)))) = 3 \<and>
   map pattern (url_map (state (snd (serve (app name d f) served)))) =
     [Path_Suffix ''/static/'' ''filename'', Literal ''/'', Literal ''/new''] \<and>
   map endpoint (url_map (state (snd (serve (app name d f) served)))) =
     [''static'', ''hello'', ''new_route'']"
  by (simp add: served_app url_map_app)

text \<open>
  The claim as first stated, exactly two entries, fails already at startup: the table
  has three.
\<close>

theorem url_map_not_two_entries:
  "length (url_map (state (app ''__main__'' () no_static_files))) \<noteq> 2"
  by (simp add: url_map_app)




text \<open>
  C7 (amended). Handling a request leaves the rule table, the view functions and the
  data of the program as they were. The one thing it changes is the framework's mark
  that the application has handled a request, which is set from the first request on.
\<close>

theorem request_leaves_state:
  "snd (wsgi_app (snd (serve (app name d f) served)) req) =
     (snd (serve (app name d f) served))
       \<lparr>state := (state (snd (serve (app name d f) served)))\<lparr>got_first_request := True\<rparr>\<rparr> \<and>
   url_map (state (snd (wsgi_app (snd (serve (app name d f) served)) req))) =
     url_map (state (app name d f)) \<and>
   view_functions (snd (wsgi_app (snd (serve (app name d f) served)) req)) =
     view_functions (app name d f) \<and>
   app_data (state (snd (wsgi_app (snd (serve (app name d f) served)) req))) = d"
  by (simp add: wsgi_app_state [OF served_app(2)] served_app)

text \<open>
  The claim as first stated, all state after a request equals the state before, fails
  for the first request: it sets the mark, and from then on registering a rule raises
  an error.
\<close>

theorem first_request_sets_mark:
  "\<not> got_first_request (state (app ''__main__'' () no_static_files)) \<and>
   got_first_request (state (snd (wsgi_app (app ''__main__'' () no_static_files)
     \<lparr>req_method = ''GET'', req_path = ''/'', query_string = [],
      req_headers = [], req_body = []\<rparr>))) \<and>
   snd (wsgi_app (app ''__main__'' () no_static_files)
     \<lparr>req_method = ''GET'', req_path = ''/'', query_string = [],
      req_headers = [], req_body = []\<rparr>) \<noteq> app ''__main__'' () no_static_files \<and>
   route (Literal ''/late'') ''hello'' (no_args hello)
     (snd (wsgi_app (app ''__main__'' () no_static_files)
       \<lparr>req_method = ''GET'', req_path = ''/'', query_string = [],
      req_headers = [], req_body = []\<rparr>)) = Inl AssertionError"
proof -
  let ?a = "app ''__main__'' () no_static_files"
  let ?r = "\<lparr>req_method = ''GET'', req_path = ''/'', query_string = [],
      req_headers = [], req_body = []\<rparr>"
  have after: "snd (wsgi_app ?a ?r) = ?a\<lparr>state := (state ?a)\<lparr>got_first_request := True\<rparr>\<rparr>"
    by (rule wsgi_app_state [OF refl])
  have before: "\<not> got_first_request (state ?a)"
    by (simp add: state_app)
  have "got_first_request (state (snd (wsgi_app ?a ?r)))"
    by (simp add: after)
  with before have "snd (wsgi_app ?a ?r) \<noteq> ?a"
    by metis
  with before show ?thesis
    by (simp add: after route_def add_url_rule_def)
qed










end
